theory Spec2Isabelle
  imports Complex_Main "HOL-Library.AList" "HOL-Library.Sublist"
begin

section \<open>JavaScript values, calls and promises\<close>

text \<open>
  A JavaScript \<^verbatim>\<open>number\<close> is a rational, or one of the three non-finite values.
  Only its truthiness and its identity matter to the code modelled here.
\<close>

datatype number = Num rat | NaN | PosInfinity | NegInfinity

text \<open>
  The values that go in and out of requests: data, and \<open>JOther\<close> for any other value, a
  function or an object that is not plain data, by a description. Nothing here looks
  inside one.
\<close>

datatype jsval =
    JUndefined
  | JNull
  | JBool bool
  | JNum number
  | JStr string
  | JArr "jsval list"
  | JObj "(string \<times> jsval) list"
  | JOther string

text \<open>Anything may be thrown; \<open>TypeError\<close> is what calling \<^verbatim>\<open>undefined\<close> raises.\<close>

datatype exn = TypeError | Thrown jsval

text \<open>A synchronous call either returns or throws.\<close>

datatype 'a completion = Return 'a | Throw exn

text \<open>The state a promise ends in; \<open>Pending\<close> is a promise that never settles.\<close>

datatype 'a promise = Fulfilled 'a | Rejected exn | Pending

text \<open>A value of type \<^verbatim>\<open>Output | Promise<Output>\<close>.\<close>

datatype ret = Plain jsval | Promise "jsval promise"

text \<open>\<^verbatim>\<open>MockRequest\<close> and \<^verbatim>\<open>MockError\<close>: \<^verbatim>\<open>(input) => Output | Promise<Output>\<close>.\<close>

type_synonym mock = "jsval \<Rightarrow> ret completion"

text \<open>\<^verbatim>\<open>APIRequest\<close>: \<^verbatim>\<open>(input) => Promise<Output>\<close>.\<close>

type_synonym live = "jsval \<Rightarrow> jsval promise completion"

text \<open>\<^verbatim>\<open>Promise.resolve(x)\<close>, which is also what \<^verbatim>\<open>await x\<close> waits for.\<close>

fun promise_resolve :: "ret \<Rightarrow> jsval promise" where
  "promise_resolve (Plain v) = Fulfilled v"
| "promise_resolve (Promise p) = p"

text \<open>The truthiness of a number: \<^verbatim>\<open>0\<close> and \<^verbatim>\<open>NaN\<close> are falsy.\<close>

fun number_truthy :: "number \<Rightarrow> bool" where
  "number_truthy (Num r) = (r \<noteq> 0)"
| "number_truthy NaN = False"
| "number_truthy PosInfinity = True"
| "number_truthy NegInfinity = True"

fun truthy :: "jsval \<Rightarrow> bool" where
  "truthy JUndefined = False"
| "truthy JNull = False"
| "truthy (JBool b) = b"
| "truthy (JNum n) = number_truthy n"
| "truthy (JStr s) = (s \<noteq> [])"
| "truthy (JArr xs) = True"
| "truthy (JObj kvs) = True"
| "truthy (JOther d) = True"

subsection \<open>The platform\<close>

text \<open>
  The second argument of \<^verbatim>\<open>fetch\<close> as \<^verbatim>\<open>index.ts\<close> builds it.
  \<^verbatim>\<open>JSON.stringify\<close> returns \<^verbatim>\<open>undefined\<close> for some inputs, hence the option.
\<close>

record fetch_init =
  fetch_method :: string
  fetch_body :: "string option"
  fetch_headers :: "(string \<times> string) list"

text \<open>
  A property that every plain object inherits from \<^verbatim>\<open>Object.prototype\<close>, such as
  \<^verbatim>\<open>toString\<close>, \<^verbatim>\<open>valueOf\<close> or \<^verbatim>\<open>constructor\<close>. Each of them is truthy. It is given by
  what calling it does: as a method of an object, \<^verbatim>\<open>obj[key](input)\<close>, where it may look at
  the object's own properties, and on its own, with no receiver. One that is not a function
  throws a \<open>TypeError\<close> both ways.
\<close>

record inherited =
  as_method :: "(string \<rightharpoonup> mock) \<Rightarrow> mock"
  detached :: mock

text \<open>
  The built-ins the library calls are parameters of the model: \<^verbatim>\<open>JSON.stringify\<close>,
  \<^verbatim>\<open>JSON.parse\<close>, \<^verbatim>\<open>fetch\<close>, \<^verbatim>\<open>response.json()\<close>, the string conversion of a template
  literal, and the properties of \<^verbatim>\<open>Object.prototype\<close> by name. \<open>'r\<close> is the type of a
  fetch response.
\<close>

record 'r platform =
  JSON_stringify :: "jsval \<Rightarrow> string option"
  JSON_parse :: "string \<Rightarrow> jsval completion"
  fetch :: "string \<Rightarrow> fetch_init \<Rightarrow> 'r promise"
  response_json :: "'r \<Rightarrow> jsval promise"
  ToString :: "jsval \<Rightarrow> string"
  Object_prototype :: "string \<rightharpoonup> inherited"

section \<open>index.ts: the service and its dispatch wrapper\<close>

text \<open>The optional third argument of the constructor; every field is optional.\<close>

record config =
  integrationMocks :: "bool option"
  config_mocks :: "(string \<rightharpoonup> mock) option"
  timeout :: "number option"

text \<open>
  An \<^verbatim>\<open>APIService\<close>. \<open>requests\<close> lists the request names in key order, each with the live
  operation \<^verbatim>\<open>call\<close> its wrapper closed over; \<open>config\<close> is the constructor argument the
  wrappers closed over. What a wrapper does when called is \<open>wrapped_request\<close> below.
  An object is an association list in its own key order. \<open>mocks\<close> holds the own properties
  of \<^verbatim>\<open>this.mocks\<close>, a plain object; what \<^verbatim>\<open>this.mocks[key]\<close> finds is \<open>get_property\<close>
  below. No request is named \<^verbatim>\<open>__proto__\<close>, which an assignment does not store as a
  property.
\<close>

record service =
  name :: string
  requests :: "(string \<times> live) list"
  mocks :: "string \<rightharpoonup> mock"
  config :: "config option"

text \<open>\<^verbatim>\<open>config?.integrationMocks\<close> as a condition.\<close>

definition tunnel_flag :: "config option \<Rightarrow> bool" where
  "tunnel_flag cfg =
     (case cfg of None \<Rightarrow> False
      | Some c \<Rightarrow> (case integrationMocks c of None \<Rightarrow> False | Some b \<Rightarrow> b))"

text \<open>\<^verbatim>\<open>config?.timeout || 200\<close>.\<close>

definition artificial_delay :: "config option \<Rightarrow> number" where
  "artificial_delay cfg =
     (case cfg of None \<Rightarrow> Num 200
      | Some c \<Rightarrow> (case timeout c of None \<Rightarrow> Num 200
                   | Some t \<Rightarrow> if number_truthy t then t else Num 200))"

text \<open>What a call does that the outside can see, in order.\<close>

datatype event =
    EvFetch string fetch_init
  | EvMockCall string jsval
  | EvLiveCall string jsval
  | EvUncaught exn

text \<open>
  What \<^verbatim>\<open>obj[key]\<close> finds in a plain object: its own property of that name or, when it has
  none, the one it inherits; \<open>None\<close> is \<^verbatim>\<open>undefined\<close>. Whatever is found is truthy.
\<close>

datatype found = Own mock | Inherited inherited

definition get_property :: "'r platform \<Rightarrow> (string \<rightharpoonup> mock) \<Rightarrow> string \<Rightarrow> found option"
  where
  "get_property P obj key =
     (case obj key of
        Some f \<Rightarrow> Some (Own f)
      | None \<Rightarrow> (case Object_prototype P key of
                   Some h \<Rightarrow> Some (Inherited h)
                 | None \<Rightarrow> None))"

text \<open>\<^verbatim>\<open>obj[key](input)\<close>: what was found is called as a method of \<open>obj\<close>.\<close>

fun call_method :: "(string \<rightharpoonup> mock) \<Rightarrow> found \<Rightarrow> mock" where
  "call_method obj (Own f) = f"
| "call_method obj (Inherited h) = as_method h obj"

text \<open>\<^verbatim>\<open>const f = obj[key]\<close> and later \<^verbatim>\<open>f(input)\<close>: what was found is called on its own.\<close>

fun call_function :: "found \<Rightarrow> mock" where
  "call_function (Own f) = f"
| "call_function (Inherited h) = detached h"

text \<open>
  The callback given to \<^verbatim>\<open>setTimeout\<close>:
  \<^verbatim>\<open>() => resolve(Promise.resolve(this.mocks[key](input)))\<close>.
  It runs against the service as it is when the timer fires. An exception here is thrown
  out of the timer callback: nothing catches it and \<^verbatim>\<open>resolve\<close> is never called, so the
  promise stays pending.
\<close>

definition timer_callback ::
  "'r platform \<Rightarrow> 'a service_scheme \<Rightarrow> string \<Rightarrow> jsval \<Rightarrow> event list \<times> jsval promise"
  where
  "timer_callback P svc key input =
     (case get_property P (mocks svc) key of
        None \<Rightarrow> ([EvUncaught TypeError], Pending)
      | Some f \<Rightarrow>
          (case call_method (mocks svc) f input of
             Throw e \<Rightarrow> ([EvMockCall key input, EvUncaught e], Pending)
           | Return r \<Rightarrow> ([EvMockCall key input], promise_resolve r)))"

text \<open>
  The result of calling a wrapper: either the call runs to its end at once, giving the
  events and the state of the returned promise, or a timer of the given length is set
  whose callback decides both, from the service as it is by then.
\<close>

datatype 'a dispatch =
    Settles "event list" "jsval promise"
  | Delayed number "'a service_scheme \<Rightarrow> event list \<times> jsval promise"

text \<open>The body of the wrapper stored in \<^verbatim>\<open>this.requests[key]\<close>.\<close>

definition wrapped_request ::
  "'r platform \<Rightarrow> 'a service_scheme \<Rightarrow> string \<Rightarrow> live \<Rightarrow> jsval \<Rightarrow> 'a dispatch" where
  "wrapped_request P svc key call input =
     (if tunnel_flag (config svc) then
        (let url = ''/'' @ name svc @ ''/'' @ key;
             init = \<lparr>fetch_method = ''POST'',
                     fetch_body = JSON_stringify P input,
                     fetch_headers = [(''Content-Type'', ''application/json'')]\<rparr>
         in Settles [EvFetch url init]
              (case fetch P url init of
                 Fulfilled response \<Rightarrow> response_json P response
               | Rejected e \<Rightarrow> Rejected e
               | Pending \<Rightarrow> Pending))
      else if get_property P (mocks svc) key \<noteq> None then
        Delayed (artificial_delay (config svc)) (\<lambda>svc'. timer_callback P svc' key input)
      else
        Settles [EvLiveCall key input]
          (case call input of Throw e \<Rightarrow> Rejected e | Return p \<Rightarrow> p))"

text \<open>
  \<^verbatim>\<open>service.requests[key](input)\<close> for a request the constructor registered; \<open>None\<close> when
  it registered none of that name.
\<close>

definition request_call ::
  "'r platform \<Rightarrow> 'a service_scheme \<Rightarrow> string \<Rightarrow> jsval \<Rightarrow> 'a dispatch option" where
  "request_call P svc key input =
     (case map_of (requests svc) key of
        None \<Rightarrow> None
      | Some call \<Rightarrow> Some (wrapped_request P svc key call input))"

text \<open>The constructor of \<^verbatim>\<open>APIService\<close>.\<close>

definition APIService :: "string \<Rightarrow> (string \<times> live) list \<Rightarrow> config option \<Rightarrow> service" where
  "APIService nm api cfg =
     \<lparr>name = nm,
      requests = foldl (\<lambda>reqs (key, call). AList.update key call reqs) [] api,
      mocks = (case cfg of None \<Rightarrow> Map.empty
               | Some c \<Rightarrow> (case config_mocks c of None \<Rightarrow> Map.empty | Some ms \<Rightarrow> ms)),
      config = cfg\<rparr>"

subsection \<open>Request metadata\<close>

datatype HTTPMethod =
    GET | POST | PUT | PATCH | DELETE | HEAD | OPTIONS | COPY
  | LOCK | MKCOL | MOVE | PROPFIND | PROPPATCH | UNLOCK | REPORT

text \<open>
  \<^verbatim>\<open>String.prototype.replace\<close> with a string pattern: the first occurrence only.
  \<open>split_first pat s\<close> is the text before and after the first occurrence of \<open>pat\<close>.
\<close>

fun split_first :: "string \<Rightarrow> string \<Rightarrow> (string \<times> string) option" where
  "split_first pat [] = (if pat = [] then Some ([], []) else None)"
| "split_first pat (c # cs) =
     (if take (length pat) (c # cs) = pat then Some ([], drop (length pat) (c # cs))
      else (case split_first pat cs of
              None \<Rightarrow> None
            | Some (before, after) \<Rightarrow> Some (c # before, after)))"

text \<open>
  The replacement text is expanded as JavaScript does: \<^verbatim>\<open>$$\<close> is a dollar, \<^verbatim>\<open>$&\<close> the
  match, \<^verbatim>\<open>$`\<close> the text before it, \<^verbatim>\<open>$'\<close> the text after it. A string pattern has no
  capture groups, so any other \<^verbatim>\<open>$\<close> stands for itself.
\<close>

fun get_substitution :: "string \<Rightarrow> string \<Rightarrow> string \<Rightarrow> string \<Rightarrow> string" where
  "get_substitution matched before after [] = []"
| "get_substitution matched before after [c] = [c]"
| "get_substitution matched before after (c # d # rest) =
     (if c = CHR ''$'' then
        (if d = CHR ''$'' then CHR ''$'' # get_substitution matched before after rest
         else if d = CHR ''&'' then matched @ get_substitution matched before after rest
         else if d = CHR 0x60 then before @ get_substitution matched before after rest
         else if d = CHR 0x27 then after @ get_substitution matched before after rest
         else c # get_substitution matched before after (d # rest))
      else c # get_substitution matched before after (d # rest))"

definition replace :: "string \<Rightarrow> string \<Rightarrow> string \<Rightarrow> string" where
  "replace res pat replacement =
     (case split_first pat res of
        None \<Rightarrow> res
      | Some (before, after) \<Rightarrow>
          before @ get_substitution pat before after replacement @ after)"

text \<open>An array index as \<^verbatim>\<open>Object.keys\<close> names it.\<close>

function decimal :: "nat \<Rightarrow> string" where
  "decimal n =
     (if n < 10 then [char_of (48 + n)]
      else decimal (n div 10) @ [char_of (48 + n mod 10)])"
  by pat_completeness auto
termination
  by (relation "measure id") auto

text \<open>The own enumerable keys of a value with their values, in \<^verbatim>\<open>Object.keys\<close> order.\<close>

fun Object_entries :: "jsval \<Rightarrow> (string \<times> jsval) list" where
  "Object_entries (JObj kvs) = kvs"
| "Object_entries (JArr xs) = zip (map decimal [0..<length xs]) xs"
| "Object_entries (JStr s) = zip (map decimal [0..<length s]) (map (\<lambda>c. JStr [c]) s)"
| "Object_entries v = []"

text \<open>\<^verbatim>\<open>buildURL\<close>: for each key, replace \<^verbatim>\<open>/:key/\<close> by \<^verbatim>\<open>/value/\<close>.\<close>

definition buildURL :: "'r platform \<Rightarrow> string \<Rightarrow> jsval \<Rightarrow> string" where
  "buildURL P url input =
     (if truthy input then
        foldl (\<lambda>res (key, v).
                 replace res (''/:'' @ key @ ''/'') (''/'' @ ToString P v @ ''/''))
          url (Object_entries input)
      else url)"

datatype 'a value_or_function = Value 'a | Function "jsval \<Rightarrow> 'a"

text \<open>The second argument of \<^verbatim>\<open>metaRequest\<close>.\<close>

record meta_inputs =
  inputs_method :: "HTTPMethod value_or_function"
  inputs_path :: "string value_or_function"
  inputs_query :: "(jsval \<Rightarrow> (string \<times> string) list) option"
  inputs_headers :: "(jsval \<Rightarrow> (string \<times> string) list) option"
  inputs_body :: "(jsval \<Rightarrow> jsval) option"

text \<open>What the live implementation given to \<^verbatim>\<open>metaRequest\<close> receives.\<close>

record call_inputs =
  call_method :: HTTPMethod
  call_path :: string
  call_query :: "(string \<times> string) list"
  call_headers :: "(string \<times> string) list"
  call_body :: jsval

record request_metadata =
  "method" :: "jsval \<Rightarrow> HTTPMethod"
  path :: "jsval \<Rightarrow> string"
  query :: "jsval \<Rightarrow> (string \<times> string) list"
  headers :: "jsval \<Rightarrow> (string \<times> string) list"
  body :: "jsval \<Rightarrow> jsval"

text \<open>A \<^verbatim>\<open>MetaAPIRequest\<close>: the metadata functions and the request function itself.\<close>

record meta_request = request_metadata +
  request :: live

definition metaRequest ::
  "'r platform \<Rightarrow> (call_inputs \<Rightarrow> jsval promise completion) \<Rightarrow> meta_inputs \<Rightarrow> meta_request"
  where
  "metaRequest P call inputs =
     (let method = (case inputs_method inputs of Value m \<Rightarrow> (\<lambda>_. m) | Function f \<Rightarrow> f);
          path = (case inputs_path inputs of Value url \<Rightarrow> buildURL P url | Function f \<Rightarrow> f);
          query = (case inputs_query inputs of None \<Rightarrow> (\<lambda>_. []) | Some f \<Rightarrow> f);
          headers = (case inputs_headers inputs of None \<Rightarrow> (\<lambda>_. []) | Some f \<Rightarrow> f);
          body = (case inputs_body inputs of None \<Rightarrow> (\<lambda>_. JUndefined) | Some f \<Rightarrow> f)
      in \<lparr>method = method, path = path, query = query, headers = headers, body = body,
          request = (\<lambda>input. call \<lparr>call_method = method input, call_path = path input,
                                   call_query = query input, call_headers = headers input,
                                   call_body = body input\<rparr>)\<rparr>)"

text \<open>\<^verbatim>\<open>MetaAPIService\<close> adds the metadata of each request to the service.\<close>

record meta_service = service +
  meta :: "(string \<times> request_metadata) list"

definition MetaAPIService ::
  "string \<Rightarrow> (string \<times> meta_request) list \<Rightarrow> config option \<Rightarrow> meta_service" where
  "MetaAPIService nm api cfg =
     (let super = APIService nm (map (\<lambda>(key, r). (key, request r)) api) cfg
      in \<lparr>name = name super, requests = requests super, mocks = mocks super,
          config = config super,
          meta = foldl (\<lambda>meta (key, r).
                    AList.update key
                      \<lparr>method = method r, path = path r, query = query r,
                       headers = headers r, body = body r\<rparr> meta)
                   [] api\<rparr>)"

section \<open>puppeteer.ts: interception\<close>

text \<open>
  A puppeteer \<^verbatim>\<open>HTTPRequest\<close> as the listener sees it. The listener asks
  \<^verbatim>\<open>isInterceptResolutionHandled()\<close> when it starts and again once the responder's result
  has arrived; the two answers are two fields, as another observer may resolve the request
  in between.
\<close>

record http_request =
  request_url :: string
  postData :: "string option"
  handled_at_start :: bool
  handled_after_await :: bool

record response =
  response_status :: number
  response_contentType :: string
  response_body :: "string option"

text \<open>What the listener asks of the request: nothing, a response or a continuation, the
  last two with a priority.\<close>

datatype action =
    NoAction
  | Respond response int
  | Continue "(string \<times> jsval) list" int

text \<open>
  The page: whether request interception is on, and the handlers of its \<^verbatim>\<open>request\<close>
  event in the order they were added, each named by the match target of the
  \<^verbatim>\<open>RequestMock\<close> it belongs to.
\<close>

record page =
  requestInterception :: bool
  request_handlers :: "string list"

text \<open>The fields of a \<^verbatim>\<open>RequestMock\<close>.\<close>

record request_mock =
  url :: string
  baseMock :: mock
  status :: number
  override :: "mock option"
  calls :: "(jsval \<times> jsval) list"

text \<open>\<^verbatim>\<open>s.endsWith(t)\<close>.\<close>

definition endsWith :: "string \<Rightarrow> string \<Rightarrow> bool" where
  "endsWith s t = (length t \<le> length s \<and> drop (length s - length t) s = t)"

text \<open>\<^verbatim>\<open>request.postData() || "{}"\<close>: an absent body and an empty one are both falsy.\<close>

definition postData_or_default :: "http_request \<Rightarrow> string" where
  "postData_or_default req =
     (case postData req of
        None \<Rightarrow> ''{}''
      | Some s \<Rightarrow> if s = [] then ''{}'' else s)"

text \<open>
  The listener up to its \<^verbatim>\<open>await\<close>: it has either finished, with what it asked of the
  request and the state of its own promise, or it waits for the responder's result,
  holding the input. On a URL that does not match, the source asks
  \<^verbatim>\<open>isInterceptResolutionHandled()\<close> once more before it continues the request; nothing
  is awaited since the first look, so the answer is the one given at the start.
\<close>

datatype listener_progress =
    Finished action "unit promise"
  | Awaiting jsval "jsval promise"

definition listener_start ::
  "'r platform \<Rightarrow> request_mock \<Rightarrow> http_request \<Rightarrow> listener_progress" where
  "listener_start P m req =
     (if handled_at_start req then Finished NoAction (Fulfilled ())
      else if endsWith (request_url req) (url m) then
        (case JSON_parse P (postData_or_default req) of
           Throw e \<Rightarrow> Finished NoAction (Rejected e)
         | Return input \<Rightarrow>
             (case (case override m of Some r \<Rightarrow> r | None \<Rightarrow> baseMock m) input of
                Throw e \<Rightarrow> Finished NoAction (Rejected e)
              | Return r \<Rightarrow> Awaiting input (promise_resolve r)))
      else if handled_at_start req then Finished NoAction (Fulfilled ())
      else Finished (Continue [] (- 1)) (Fulfilled ()))"

text \<open>
  The listener after its \<^verbatim>\<open>await\<close>, with the responder's output, against the
  \<^verbatim>\<open>RequestMock\<close> as it is by then.
\<close>

definition listener_resume ::
  "'r platform \<Rightarrow> request_mock \<Rightarrow> http_request \<Rightarrow> jsval \<Rightarrow> jsval \<Rightarrow> request_mock \<times> action"
  where
  "listener_resume P m req input output =
     (if handled_after_await req then (m, NoAction)
      else (m\<lparr>calls := calls m @ [(input, output)]\<rparr>,
            Respond \<lparr>response_status = status m,
                     response_contentType = ''application/json'',
                     response_body = JSON_stringify P output\<rparr> 0))"

text \<open>The whole listener when nothing else touches the \<^verbatim>\<open>RequestMock\<close> meanwhile.\<close>

definition listener ::
  "'r platform \<Rightarrow> request_mock \<Rightarrow> http_request \<Rightarrow> request_mock \<times> action \<times> unit promise"
  where
  "listener P m req =
     (case listener_start P m req of
        Finished a p \<Rightarrow> (m, a, p)
      | Awaiting input p \<Rightarrow>
          (case p of
             Fulfilled output \<Rightarrow>
               (case listener_resume P m req input output of
                  (m', a) \<Rightarrow> (m', a, Fulfilled ()))
           | Rejected e \<Rightarrow> (m, NoAction, Rejected e)
           | Pending \<Rightarrow> (m, NoAction, Pending)))"

text \<open>The getter \<^verbatim>\<open>last\<close>, once the network is idle: the last call, if any.\<close>

definition last_call :: "request_mock \<Rightarrow> (jsval \<times> jsval) option" where
  "last_call m = (if calls m = [] then None else Some (last (calls m)))"

text \<open>The constructor: it adds the new object's listener to the page.\<close>

definition RequestMock :: "page \<Rightarrow> string \<Rightarrow> mock \<Rightarrow> page \<times> request_mock" where
  "RequestMock pg u base =
     (pg\<lparr>request_handlers := request_handlers pg @ [u]\<rparr>,
      \<lparr>url = u, baseMock = base, status = Num 200, override = None, calls = []\<rparr>)"

definition setResponse :: "request_mock \<Rightarrow> mock \<Rightarrow> request_mock" where
  "setResponse m mock = m\<lparr>override := Some mock\<rparr>"

definition setError :: "request_mock \<Rightarrow> number \<Rightarrow> mock \<Rightarrow> request_mock" where
  "setError m code mock = m\<lparr>status := code, override := Some mock\<rparr>"

definition reset :: "request_mock \<Rightarrow> request_mock" where
  "reset m = m\<lparr>status := Num 200, override := None\<rparr>"

text \<open>
  The callback \<^verbatim>\<open>mockAPI\<close> reduces the request names with. The accumulator of the source
  is the map of interceptors; the page is threaded along with it, as every
  \<^verbatim>\<open>new RequestMock\<close> adds a handler to it. The listener calls the responder it was
  given on its own, \<^verbatim>\<open>(this.override || this.baseMock)(input)\<close>, with no receiver.
\<close>

definition mockAPI_reducer ::
  "'r platform \<Rightarrow> 'a service_scheme \<Rightarrow> page \<times> (string \<times> request_mock) list \<Rightarrow> string
     \<Rightarrow> page \<times> (string \<times> request_mock) list" where
  "mockAPI_reducer P api acc key =
     (case acc of
        (pg, mocks') \<Rightarrow>
          (case RequestMock pg (name api @ ''/'' @ key)
                  (case get_property P (mocks api) key of
                     Some f \<Rightarrow> call_function f
                   | None \<Rightarrow> (\<lambda>input. Return (Plain (JObj [])))) of
             (pg', rm) \<Rightarrow> (pg', AList.update key rm mocks')))"

text \<open>
  \<^verbatim>\<open>mockAPI\<close>. It returns the service as well, to show what it does to it: the source
  assigns to no field of \<^verbatim>\<open>api\<close>.
\<close>

definition mockAPI ::
  "'r platform \<Rightarrow> 'a service_scheme \<Rightarrow> page
     \<Rightarrow> 'a service_scheme \<times> page \<times> (string \<times> request_mock) list"
  where
  "mockAPI P api pg =
     (case foldl (mockAPI_reducer P api) (pg\<lparr>requestInterception := True\<rparr>, [])
             (map fst (requests api)) of
        (pg', mocks') \<Rightarrow> (api, pg', mocks'))"

section \<open>pact.ts: interaction builders\<close>

text \<open>
  What the \<^verbatim>\<open>build\<close> closure of a request captured when it was made: the metadata and
  what \<^verbatim>\<open>service.mocks[key]\<close> found then, which the closure calls on its own.
\<close>

record builder =
  builder_metadata :: request_metadata
  builder_mock :: "mock option"

text \<open>
  \<^verbatim>\<open>setupInteractionBuilders\<close>: one builder per key of \<^verbatim>\<open>service.meta\<close>, then
  \<^verbatim>\<open>service.mocks = {}\<close>.
\<close>

definition setupInteractionBuilders ::
  "'r platform \<Rightarrow> meta_service \<Rightarrow> meta_service \<times> (string \<times> builder) list" where
  "setupInteractionBuilders P service =
     (let builders =
            foldl (\<lambda>interactions (key, metadata).
                     AList.update key
                       \<lparr>builder_metadata = metadata,
                        builder_mock =
                          map_option call_function (get_property P (mocks service) key)\<rparr>
                       interactions)
              [] (meta service)
      in (service\<lparr>mocks := Map.empty\<rparr>, builders))"

section \<open>Sequences of operations on an interceptor\<close>

text \<open>
  Everything that can act on a \<^verbatim>\<open>RequestMock\<close>: the three mutators, a run of its listener
  on a request, and the second half of a listener that was waiting for its responder.
\<close>

datatype operation =
    SetResponse mock
  | SetError number mock
  | Reset
  | Intercept http_request
  | Resume http_request jsval jsval

fun perform :: "'r platform \<Rightarrow> request_mock \<Rightarrow> operation \<Rightarrow> request_mock" where
  "perform P m (SetResponse r) = setResponse m r"
| "perform P m (SetError code r) = setError m code r"
| "perform P m Reset = reset m"
| "perform P m (Intercept req) = fst (listener P m req)"
| "perform P m (Resume req input output) = fst (listener_resume P m req input output)"

text \<open>
  What the interceptor that \<^verbatim>\<open>mockAPI\<close> returned for a request name asks of a request and
  how its listener ends; \<open>None\<close> when there is no interceptor of that name.
\<close>

definition answer_of ::
  "'r platform \<Rightarrow> (string \<times> request_mock) list \<Rightarrow> string \<Rightarrow> http_request
     \<Rightarrow> (action \<times> unit promise) option" where
  "answer_of P interceptors key req =
     (case map_of interceptors key of
        None \<Rightarrow> None
      | Some rm \<Rightarrow> Some (snd (listener P rm req)))"

text \<open>The timer a call sets, if it sets one.\<close>

fun timer_of :: "'a dispatch \<Rightarrow> number option" where
  "timer_of (Settles evs p) = None"
| "timer_of (Delayed d k) = Some d"

section \<open>Examples\<close>

text \<open>
  A small platform. Its JSON knows three texts, \<^verbatim>\<open>{}\<close>, \<^verbatim>\<open>[]\<close> and \<^verbatim>\<open>null\<close>, and the
  examples use no other; every fetch is answered with \<^verbatim>\<open>[]\<close>. The string conversion is
  right on strings, \<^verbatim>\<open>undefined\<close>, \<^verbatim>\<open>null\<close>, booleans and plain objects.
\<close>

definition example_ToString :: "jsval \<Rightarrow> string" where
  "example_ToString v =
     (case v of
        JStr s \<Rightarrow> s
      | JUndefined \<Rightarrow> ''undefined''
      | JNull \<Rightarrow> ''null''
      | JBool b \<Rightarrow> if b then ''true'' else ''false''
      | _ \<Rightarrow> ''[object Object]'')"

text \<open>
  \<^verbatim>\<open>Object(input)\<close>: an object is returned as it is, \<^verbatim>\<open>undefined\<close> and \<^verbatim>\<open>null\<close> give a
  new empty object, any other value its wrapper object.
\<close>

definition example_Object :: "jsval \<Rightarrow> jsval" where
  "example_Object v =
     (case v of
        JUndefined \<Rightarrow> JObj []
      | JNull \<Rightarrow> JObj []
      | JObj kvs \<Rightarrow> JObj kvs
      | JArr xs \<Rightarrow> JArr xs
      | JOther d \<Rightarrow> JOther d
      | _ \<Rightarrow> JOther ''wrapper object'')"

text \<open>
  The twelve properties of \<^verbatim>\<open>Object.prototype\<close>, called with the one argument \<open>input\<close>.
  As a method each has the object as its receiver; on its own it has none, and those
  that need one throw. \<^verbatim>\<open>toString\<close> as a method is only reached on an object without an
  own \<^verbatim>\<open>toString\<close>. \<^verbatim>\<open>toLocaleString\<close> calls the \<^verbatim>\<open>toString\<close> of its receiver with no
  argument. \<^verbatim>\<open>valueOf\<close> returns its receiver. \<^verbatim>\<open>hasOwnProperty\<close> and
  \<^verbatim>\<open>propertyIsEnumerable\<close> take the input as a property name. \<^verbatim>\<open>isPrototypeOf\<close> is false
  of data. \<^verbatim>\<open>__defineGetter__\<close> and \<^verbatim>\<open>__defineSetter__\<close> refuse a missing second argument.
  \<^verbatim>\<open>__lookupGetter__\<close> and \<^verbatim>\<open>__lookupSetter__\<close> find an accessor only under the name
  \<^verbatim>\<open>__proto__\<close>. \<^verbatim>\<open>__proto__\<close> itself is an object, not a function, and cannot be called.
\<close>

definition example_prototype :: "string \<rightharpoonup> inherited" where
  "example_prototype =
     [''constructor'' \<mapsto>
        \<lparr>as_method = (\<lambda>obj input. Return (Plain (example_Object input))),
         detached = (\<lambda>input. Return (Plain (example_Object input)))\<rparr>,
      ''toString'' \<mapsto>
        \<lparr>as_method = (\<lambda>obj input. Return (Plain (JStr ''[object Object]''))),
         detached = (\<lambda>input. Return (Plain (JStr ''[object Undefined]'')))\<rparr>,
      ''toLocaleString'' \<mapsto>
        \<lparr>as_method = (\<lambda>obj input.
                        case obj ''toString'' of
                          Some f \<Rightarrow> f JUndefined
                        | None \<Rightarrow> Return (Plain (JStr ''[object Object]''))),
         detached = (\<lambda>input. Throw TypeError)\<rparr>,
      ''valueOf'' \<mapsto>
        \<lparr>as_method = (\<lambda>obj input. Return (Plain (JOther ''the receiver''))),
         detached = (\<lambda>input. Throw TypeError)\<rparr>,
      ''hasOwnProperty'' \<mapsto>
        \<lparr>as_method = (\<lambda>obj input.
                        Return (Plain (JBool (obj (example_ToString input) \<noteq> None)))),
         detached = (\<lambda>input. Throw TypeError)\<rparr>,
      ''propertyIsEnumerable'' \<mapsto>
        \<lparr>as_method = (\<lambda>obj input.
                        Return (Plain (JBool (obj (example_ToString input) \<noteq> None)))),
         detached = (\<lambda>input. Throw TypeError)\<rparr>,
      ''isPrototypeOf'' \<mapsto>
        \<lparr>as_method = (\<lambda>obj input. Return (Plain (JBool False))),
         detached = (\<lambda>input.
                       case input of
                         JObj kvs \<Rightarrow> Throw TypeError
                       | JArr xs \<Rightarrow> Throw TypeError
                       | JOther d \<Rightarrow> Throw TypeError
                       | _ \<Rightarrow> Return (Plain (JBool False)))\<rparr>,
      ''__defineGetter__'' \<mapsto>
        \<lparr>as_method = (\<lambda>obj input. Throw TypeError),
         detached = (\<lambda>input. Throw TypeError)\<rparr>,
      ''__defineSetter__'' \<mapsto>
        \<lparr>as_method = (\<lambda>obj input. Throw TypeError),
         detached = (\<lambda>input. Throw TypeError)\<rparr>,
      ''__lookupGetter__'' \<mapsto>
        \<lparr>as_method = (\<lambda>obj input.
                        Return (Plain (if example_ToString input = ''__proto__''
                                       then JOther ''the getter of __proto__''
                                       else JUndefined))),
         detached = (\<lambda>input. Throw TypeError)\<rparr>,
      ''__lookupSetter__'' \<mapsto>
        \<lparr>as_method = (\<lambda>obj input.
                        Return (Plain (if example_ToString input = ''__proto__''
                                       then JOther ''the setter of __proto__''
                                       else JUndefined))),
         detached = (\<lambda>input. Throw TypeError)\<rparr>,
      ''__proto__'' \<mapsto>
        \<lparr>as_method = (\<lambda>obj input. Throw TypeError),
         detached = (\<lambda>input. Throw TypeError)\<rparr>]"

definition example_platform :: "string platform" where
  "example_platform =
     \<lparr>JSON_stringify = (\<lambda>v. if v = JUndefined then None
                             else if v = JObj [] then Some ''{}''
                             else if v = JArr [] then Some ''[]'' else Some ''null''),
      JSON_parse = (\<lambda>s. if s = ''{}'' then Return (JObj [])
                         else if s = ''[]'' then Return (JArr [])
                         else if s = ''null'' then Return JNull
                         else Throw (Thrown (JStr ''SyntaxError''))),
      fetch = (\<lambda>u init. Fulfilled ''[]''),
      response_json = (\<lambda>r. if r = ''[]'' then Fulfilled (JArr [])
                            else Rejected (Thrown (JStr ''SyntaxError''))),
      ToString = example_ToString,
      Object_prototype = example_prototype\<rparr>"

text \<open>The users service of the README, with one request and then with two.\<close>

definition getUsers_live :: live where
  "getUsers_live = (\<lambda>input. Return (Fulfilled (JArr [])))"

definition addUser_live :: live where
  "addUser_live = (\<lambda>input. Return (Fulfilled input))"

definition getUsers_mock :: mock where
  "getUsers_mock = (\<lambda>input. Return (Plain (JArr [JObj [(''id'', JStr ''1'')]])))"

definition throwing_mock :: mock where
  "throwing_mock = (\<lambda>input. Throw (Thrown (JStr ''boom'')))"

definition addUser_mock :: mock where
  "addUser_mock = (\<lambda>input. Return (Plain input))"

definition error_mock :: mock where
  "error_mock = (\<lambda>input. Return (Plain JNull))"

definition users_config :: config where
  "users_config =
     \<lparr>integrationMocks = None,
      config_mocks = Some [''getUsers'' \<mapsto> getUsers_mock],
      timeout = Some (Num 0)\<rparr>"

definition mocked_users :: service where
  "mocked_users = APIService ''users'' [(''getUsers'', getUsers_live)] (Some users_config)"



definition throwing_users :: service where
  "throwing_users =
     APIService ''users'' [(''getUsers'', getUsers_live)]
       (Some \<lparr>integrationMocks = None,
              config_mocks = Some [''getUsers'' \<mapsto> throwing_mock],
              timeout = None\<rparr>)"

definition two_users :: service where
  "two_users =
     APIService ''users'' [(''getUsers'', getUsers_live), (''addUser'', addUser_live)]
       (Some users_config)"




definition toLocaleString_users :: service where
  "toLocaleString_users = APIService ''users'' [(''toLocaleString'', getUsers_live)] None"

definition blank_page :: page where
  "blank_page = \<lparr>requestInterception = False, request_handlers = []\<rparr>"

definition addUser_request :: http_request where
  "addUser_request =
     \<lparr>request_url = ''http://localhost/users/addUser'', postData = None,
      handled_at_start = False, handled_after_await = False\<rparr>"

definition addUser_request_with_body :: http_request where
  "addUser_request_with_body = addUser_request\<lparr>postData := Some ''[]''\<rparr>"

definition addUser_request_not_JSON :: http_request where
  "addUser_request_not_JSON = addUser_request\<lparr>postData := Some ''id=1''\<rparr>"

definition toLocaleString_request :: http_request where
  "toLocaleString_request =
     \<lparr>request_url = ''http://localhost/users/toLocaleString'', postData = None,
      handled_at_start = False, handled_after_await = False\<rparr>"

definition other_request :: http_request where
  "other_request =
     \<lparr>request_url = ''http://localhost/index.html'', postData = None,
      handled_at_start = False, handled_after_await = False\<rparr>"

definition addUser_interceptor :: request_mock where
  "addUser_interceptor =
     \<lparr>url = ''users/addUser'', baseMock = addUser_mock, status = Num 200,
      override = None, calls = []\<rparr>"

text \<open>The request of the documentation of \<^verbatim>\<open>metaRequest\<close>: the path \<^verbatim>\<open>/users/:id\<close>.\<close>

definition getUser_meta :: meta_request where
  "getUser_meta =
     metaRequest example_platform (\<lambda>inputs. Return (Fulfilled JNull))
       \<lparr>inputs_method = Value GET, inputs_path = Value ''/users/:id'',
        inputs_query = None, inputs_headers = None, inputs_body = None\<rparr>"

definition meta_users :: meta_service where
  "meta_users =
     MetaAPIService ''users'' [(''getUser'', getUser_meta)]
       (Some \<lparr>integrationMocks = None,
              config_mocks = Some [''getUser'' \<mapsto> getUsers_mock],
              timeout = None\<rparr>)"

section \<open>The dispatch wrapper\<close>

lemma get_property_own: "obj key = Some f \<Longrightarrow> get_property P obj key = Some (Own f)"
  by (simp add: get_property_def)


lemma get_property_nothing:
  "obj key = None \<Longrightarrow> Object_prototype P key = None \<Longrightarrow> get_property P obj key = None"
  by (simp add: get_property_def)



lemma timer_callback_throws:
  "mocks svc key = Some m \<Longrightarrow> m input = Throw e \<Longrightarrow>
   timer_callback P svc key input = ([EvMockCall key input, EvUncaught e], Pending)"
  by (simp add: timer_callback_def get_property_own)

lemma timer_callback_rejects:
  "mocks svc key = Some m \<Longrightarrow> m input = Return (Promise (Rejected e)) \<Longrightarrow>
   timer_callback P svc key input = ([EvMockCall key input], Rejected e)"
  by (simp add: timer_callback_def get_property_own)


text \<open>A substitute that is gone when the timer fires: nothing to call.\<close>

lemma timer_callback_nothing:
  "mocks svc key = None \<Longrightarrow> Object_prototype P key = None \<Longrightarrow>
   timer_callback P svc key input = ([EvUncaught TypeError], Pending)"
  by (simp add: timer_callback_def get_property_nothing)



lemma requests_single: "requests (APIService nm [(k, c)] cfg) = [(k, c)]"
  by (simp add: APIService_def)





text \<open>
  C6. A substitute that throws when it is called: the exception leaves the timer callback
  uncaught and the promise the caller holds is never settled, neither fulfilled nor
  rejected. The service has a substitute for \<^verbatim>\<open>getUsers\<close> that throws, and no tunnel flag.
\<close>

theorem throwing_substitute_never_settles:
  "request_call example_platform throwing_users ''getUsers'' JUndefined =
     Some (Delayed (Num 200) (\<lambda>svc'. timer_callback example_platform svc' ''getUsers'' JUndefined))
   \<and> timer_callback example_platform throwing_users ''getUsers'' JUndefined =
       ([EvMockCall ''getUsers'' JUndefined, EvUncaught (Thrown (JStr ''boom''))], Pending)"
  by (simp add: throwing_users_def APIService_def request_call_def wrapped_request_def
      tunnel_flag_def artificial_delay_def timer_callback_def throwing_mock_def
      get_property_def)

text \<open>
  C9. A service constructed with a substitute for a request and with a configured timeout
  waits, when that request is dispatched with the tunnel flag unset, for the configured
  timeout if it is truthy and for 200 milliseconds otherwise: a timeout of \<^verbatim>\<open>0\<close> (or
  \<^verbatim>\<open>NaN\<close>, the other falsy number) gives a delay of 200, not 0.
\<close>

theorem falsy_timeout_waits_default:
  assumes "map_of (requests (APIService nm api (Some cfg))) key = Some call"
    and "\<not> tunnel_flag (Some cfg)"
    and "config_mocks cfg = Some ms"
    and "ms key = Some m"
    and "timeout cfg = Some t"
  shows "request_call P (APIService nm api (Some cfg)) key input =
           Some (Delayed (if t = Num 0 \<or> t = NaN then Num 200 else t)
                   (\<lambda>svc'. timer_callback P svc' key input))"
proof -
  have d: "artificial_delay (Some cfg) = (if t = Num 0 \<or> t = NaN then Num 200 else t)"
    using assms(5) by (cases t) (simp_all add: artificial_delay_def)
  have ms: "mocks (APIService nm api (Some cfg)) key = Some m"
    using assms(3,4) by (simp add: APIService_def)
  have cf: "config (APIService nm api (Some cfg)) = Some cfg"
    by (simp add: APIService_def)
  show ?thesis
    using assms(1,2) d ms cf
    by (simp add: request_call_def wrapped_request_def get_property_own)
qed

theorem falsy_timeout_waits_default_witness:
  "request_call example_platform mocked_users ''getUsers'' JUndefined =
     Some (Delayed (Num 200) (\<lambda>svc'. timer_callback example_platform svc' ''getUsers'' JUndefined))"
  using falsy_timeout_waits_default
    [of "''users''" "[(''getUsers'', getUsers_live)]" users_config "''getUsers''"
        getUsers_live "[''getUsers'' \<mapsto> getUsers_mock]" getUsers_mock "Num 0"
        example_platform JUndefined]
  by (simp add: mocked_users_def APIService_def users_config_def tunnel_flag_def)

section \<open>The listener of an interceptor\<close>

lemma listener_resume_fields:
  "url (fst (listener_resume P m req input output)) = url m"
  "baseMock (fst (listener_resume P m req input output)) = baseMock m"
  "status (fst (listener_resume P m req input output)) = status m"
  "override (fst (listener_resume P m req input output)) = override m"
  by (simp_all add: listener_resume_def)

lemma listener_fields:
  "url (fst (listener P m req)) = url m"
  "baseMock (fst (listener P m req)) = baseMock m"
  "status (fst (listener P m req)) = status m"
  "override (fst (listener P m req)) = override m"
  by (simp_all add: listener_def listener_resume_def
      split: listener_progress.splits promise.splits prod.splits)

lemma listener_resume_calls:
  "calls (fst (listener_resume P m req input output)) =
     (if handled_after_await req then calls m else calls m @ [(input, output)])"
  by (simp add: listener_resume_def)

lemma listener_calls:
  "calls (fst (listener P m req)) = calls m
   \<or> (\<exists>input output. calls (fst (listener P m req)) = calls m @ [(input, output)])"
  by (auto simp add: listener_def listener_resume_def
      split: listener_progress.splits promise.splits prod.splits)

lemma listener_responds:
  assumes "\<not> handled_at_start req" and "\<not> handled_after_await req"
    and "endsWith (request_url req) (url m)"
    and "JSON_parse P (postData_or_default req) = Return input"
    and "(case override m of Some r \<Rightarrow> r | None \<Rightarrow> baseMock m) input = Return r"
    and "promise_resolve r = Fulfilled output"
  shows "listener P m req =
           (m\<lparr>calls := calls m @ [(input, output)]\<rparr>,
            Respond \<lparr>response_status = status m,
                     response_contentType = ''application/json'',
                     response_body = JSON_stringify P output\<rparr> 0,
            Fulfilled ())"
  using assms by (simp add: listener_def listener_start_def listener_resume_def)

lemma listener_continues:
  "\<not> handled_at_start req \<Longrightarrow> \<not> endsWith (request_url req) (url m) \<Longrightarrow>
   listener P m req = (m, Continue [] (- 1), Fulfilled ())"
  by (simp add: listener_def listener_start_def)

text \<open>
  The guard: a request that another observer has resolved is left alone, whether it was
  resolved before the listener started or while the responder's result was awaited.
\<close>

lemma listener_skips_resolved:
  "handled_at_start req \<Longrightarrow> listener P m req = (m, NoAction, Fulfilled ())"
  by (simp add: listener_def listener_start_def)

lemma listener_resume_skips_resolved:
  "handled_after_await req \<Longrightarrow> listener_resume P m req input output = (m, NoAction)"
  by (simp add: listener_resume_def)

text \<open>A responder that throws leaves the request unresolved and the history as it was.\<close>

lemma listener_responder_throws:
  assumes "\<not> handled_at_start req"
    and "endsWith (request_url req) (url m)"
    and "JSON_parse P (postData_or_default req) = Return input"
    and "(case override m of Some r \<Rightarrow> r | None \<Rightarrow> baseMock m) input = Throw e"
  shows "listener P m req = (m, NoAction, Rejected e)"
  using assms by (simp add: listener_def listener_start_def)

lemma endsWith_suffix: "endsWith s t \<longleftrightarrow> suffix t s"
proof
  assume "endsWith s t"
  then have "s = take (length s - length t) s @ t"
    by (metis append_take_drop_id endsWith_def)
  then show "suffix t s"
    by (metis suffixI)
next
  assume "suffix t s"
  then obtain p where "s = p @ t"
    by (auto simp add: suffix_def)
  then show "endsWith s t"
    by (simp add: endsWith_def)
qed

lemma postData_or_default_cases:
  "postData_or_default req =
     (case postData req of None \<Rightarrow> ''{}'' | Some s \<Rightarrow> if s = [] then ''{}'' else s)"
  by (simp add: postData_or_default_def)

text \<open>
  C4. An intercepted request is one whose interception is still unresolved when the
  listener looks: at its start and, for a matching request, again once the responder's
  result has arrived. For every such request whose URL ends with the interceptor's match
  target \<^verbatim>\<open><service>/<request>\<close>, whose body (the text \<^verbatim>\<open>{}\<close> when the body is absent or
  empty) parses to an input, and for which the override responder or, with none set, the
  substitute captured at construction gives an output: the listener appends the pair of
  input and output to the call history and asks for a response with the status code then
  set (200 in a new interceptor), content type \<^verbatim>\<open>application/json\<close> and the JSON text of
  the output as body, at priority 0. This holds of the second half of the listener against
  whatever state \<open>m'\<close> the interceptor has by then. A request whose URL does not end with the
  match target is continued with no overrides at priority \<open>-1\<close>, below the priority of a
  response.
\<close>

theorem listener_matching_request:
  assumes "\<not> handled_at_start req"
  shows
    "(suffix (url m) (request_url req)
        \<and> JSON_parse P (case postData req of
                          None \<Rightarrow> ''{}''
                        | Some s \<Rightarrow> if s = [] then ''{}'' else s) = Return input
        \<and> (case override m of Some r \<Rightarrow> r | None \<Rightarrow> baseMock m) input = Return r
        \<and> (case r of Plain v \<Rightarrow> Fulfilled v | Promise p \<Rightarrow> p) = Fulfilled output
        \<and> \<not> handled_after_await req \<longrightarrow>
      listener_start P m req = Awaiting input (Fulfilled output)
      \<and> listener_resume P m' req input output =
          (m'\<lparr>calls := calls m' @ [(input, output)]\<rparr>,
           Respond \<lparr>response_status = status m',
                    response_contentType = ''application/json'',
                    response_body = JSON_stringify P output\<rparr> 0)
      \<and> listener P m req =
          (m\<lparr>calls := calls m @ [(input, output)]\<rparr>,
           Respond \<lparr>response_status = status m,
                    response_contentType = ''application/json'',
                    response_body = JSON_stringify P output\<rparr> 0,
           Fulfilled ()))
     \<and> (\<not> suffix (url m) (request_url req) \<longrightarrow>
          listener P m req = (m, Continue [] (- 1), Fulfilled ()))
     \<and> status (snd (RequestMock pg u base)) = Num 200"
proof -
  have r: "promise_resolve r = (case r of Plain v \<Rightarrow> Fulfilled v | Promise p \<Rightarrow> p)"
    by (cases r) simp_all
  show ?thesis
    using assms
    by (simp add: listener_responds listener_continues listener_start_def listener_resume_def
        postData_or_default_cases [symmetric] endsWith_suffix [symmetric] r [symmetric]
        RequestMock_def)
qed

theorem listener_matching_request_witness:
  "listener example_platform addUser_interceptor addUser_request =
     (addUser_interceptor\<lparr>calls := [(JObj [], JObj [])]\<rparr>,
      Respond \<lparr>response_status = Num 200, response_contentType = ''application/json'',
               response_body = Some ''{}''\<rparr> 0,
      Fulfilled ())
   \<and> listener example_platform addUser_interceptor addUser_request_with_body =
     (addUser_interceptor\<lparr>calls := [(JArr [], JArr [])]\<rparr>,
      Respond \<lparr>response_status = Num 200, response_contentType = ''application/json'',
               response_body = Some ''[]''\<rparr> 0,
      Fulfilled ())
   \<and> listener example_platform addUser_interceptor other_request =
       (addUser_interceptor, Continue [] (- 1), Fulfilled ())"
proof -
  have a: "\<not> handled_at_start addUser_request" "\<not> handled_after_await addUser_request"
    "suffix (url addUser_interceptor) (request_url addUser_request)"
    "postData addUser_request = None"
    by (simp_all add: addUser_request_def addUser_interceptor_def endsWith_def
        endsWith_suffix [symmetric])
  have w: "\<not> handled_at_start addUser_request_with_body"
    "\<not> handled_after_await addUser_request_with_body"
    "suffix (url addUser_interceptor) (request_url addUser_request_with_body)"
    "postData addUser_request_with_body = Some ''[]''"
    by (simp_all add: addUser_request_with_body_def addUser_request_def
        addUser_interceptor_def endsWith_def endsWith_suffix [symmetric])
  have b: "JSON_parse example_platform ''{}'' = Return (JObj [])"
    "JSON_parse example_platform ''[]'' = Return (JArr [])"
    "JSON_stringify example_platform (JObj []) = Some ''{}''"
    "JSON_stringify example_platform (JArr []) = Some ''[]''"
    by (simp_all add: example_platform_def)
  have c: "(case override addUser_interceptor of Some r \<Rightarrow> r
            | None \<Rightarrow> baseMock addUser_interceptor) = addUser_mock"
    "addUser_mock (JObj []) = Return (Plain (JObj []))"
    "addUser_mock (JArr []) = Return (Plain (JArr []))"
    "status addUser_interceptor = Num 200" "calls addUser_interceptor = []"
    by (simp_all add: addUser_interceptor_def addUser_mock_def)
  have o: "\<not> handled_at_start other_request"
    "\<not> suffix (url addUser_interceptor) (request_url other_request)"
    by (simp_all add: other_request_def addUser_interceptor_def endsWith_def
        endsWith_suffix [symmetric])
  have 1: "listener example_platform addUser_interceptor addUser_request =
     (addUser_interceptor\<lparr>calls := [(JObj [], JObj [])]\<rparr>,
      Respond \<lparr>response_status = Num 200, response_contentType = ''application/json'',
               response_body = Some ''{}''\<rparr> 0,
      Fulfilled ())"
    using listener_matching_request
        [OF a(1), of addUser_interceptor example_platform "JObj []" "Plain (JObj [])"
          "JObj []" addUser_interceptor]
      a b c
    by simp
  have 2: "listener example_platform addUser_interceptor addUser_request_with_body =
     (addUser_interceptor\<lparr>calls := [(JArr [], JArr [])]\<rparr>,
      Respond \<lparr>response_status = Num 200, response_contentType = ''application/json'',
               response_body = Some ''[]''\<rparr> 0,
      Fulfilled ())"
    using listener_matching_request
        [OF w(1), of addUser_interceptor example_platform "JArr []" "Plain (JArr [])"
          "JArr []" addUser_interceptor]
      w b c
    by simp
  have 3: "listener example_platform addUser_interceptor other_request =
       (addUser_interceptor, Continue [] (- 1), Fulfilled ())"
    using listener_matching_request [OF o(1), of addUser_interceptor example_platform] o
    by simp
  show ?thesis
    using 1 2 3 by simp
qed

section \<open>The state of an interceptor\<close>

lemma perform_fixed:
  "url (perform P m op) = url m" "baseMock (perform P m op) = baseMock m"
  by (cases op; simp add: setResponse_def setError_def reset_def listener_fields
      listener_resume_fields)+

lemma perform_calls: "prefix (calls m) (calls (perform P m op))"
proof (cases op)
  case (Intercept req)
  then show ?thesis using listener_calls [of P m req] by auto
next
  case (Resume req inp out)
  then show ?thesis by (simp add: listener_resume_calls)
qed (simp_all add: setResponse_def setError_def reset_def)

lemma perform_default_status:
  "(override m = None \<longrightarrow> status m = Num 200) \<Longrightarrow>
   override (perform P m op) = None \<longrightarrow> status (perform P m op) = Num 200"
  by (cases op) (simp_all add: setResponse_def setError_def reset_def listener_fields
      listener_resume_fields)

lemma foldl_perform_fixed:
  "url (foldl (perform P) m ops) = url m \<and> baseMock (foldl (perform P) m ops) = baseMock m"
  by (induction ops arbitrary: m) (simp_all add: perform_fixed)

lemma foldl_perform_calls: "prefix (calls m) (calls (foldl (perform P) m ops))"
proof (induction ops arbitrary: m)
  case Nil
  show ?case by simp
next
  case (Cons op ops)
  have "prefix (calls m) (calls (perform P m op))"
    by (rule perform_calls)
  also have "prefix (calls (perform P m op)) (calls (foldl (perform P) (perform P m op) ops))"
    by (rule Cons.IH)
  finally show ?case by simp
qed

lemma foldl_perform_default_status:
  "(override m = None \<longrightarrow> status m = Num 200) \<Longrightarrow>
   override (foldl (perform P) m ops) = None \<longrightarrow> status (foldl (perform P) m ops) = Num 200"
proof (induction ops arbitrary: m)
  case Nil
  then show ?case by simp
next
  case (Cons op ops)
  from Cons.prems have "override (perform P m op) = None \<longrightarrow> status (perform P m op) = Num 200"
    by (rule perform_default_status)
  then show ?case using Cons.IH by simp
qed

text \<open>
  C10. The mutators \<^verbatim>\<open>setResponse\<close>, \<^verbatim>\<open>setError\<close> and \<^verbatim>\<open>reset\<close> leave the call history as it
  is. The listener leaves it as it is or appends one pair of input and output, and so does
  its second half run on its own. Hence after any sequence of operations on an interceptor
  the history it had before is a prefix of the history it has: no entry is removed or
  rewritten.
\<close>

theorem history_append_only:
  "calls (setResponse m r) = calls m
   \<and> calls (setError m code r) = calls m
   \<and> calls (reset m) = calls m
   \<and> (calls (fst (listener P m req)) = calls m
        \<or> (\<exists>input output. calls (fst (listener P m req)) = calls m @ [(input, output)]))
   \<and> (calls (fst (listener_resume P m req input' output')) = calls m
        \<or> calls (fst (listener_resume P m req input' output')) = calls m @ [(input', output')])
   \<and> prefix (calls m) (calls (foldl (perform P) m ops))"
  using listener_calls [of P m req] foldl_perform_calls [of m P ops]
  by (simp add: setResponse_def setError_def reset_def listener_resume_calls)

text \<open>
  C5. \<^verbatim>\<open>setError(code, responder)\<close>, with \<^verbatim>\<open>503\<close> or any other code, sets the status and the
  override: every matching call after it that the listener completes (a request not yet
  resolved, whose body parses, to which the responder gives an output) is answered with
  that status and the JSON text of the responder's output, and a run of the listener
  changes neither status nor override, so this lasts until the next mutator.
  \<^verbatim>\<open>reset()\<close> sets the status to 200 and clears the override, so the substitute captured
  at construction answers again. \<^verbatim>\<open>setResponse(responder)\<close> sets the override and leaves the
  status, the captured substitute and the match target as they are.
\<close>

theorem mutators_effect:
  "status (setError m code r) = code \<and> override (setError m code r) = Some r
   \<and> baseMock (setError m code r) = baseMock m \<and> url (setError m code r) = url m
   \<and> (\<forall>req input ret output.
         \<not> handled_at_start req \<and> \<not> handled_after_await req
         \<and> endsWith (request_url req) (url m)
         \<and> JSON_parse P (postData_or_default req) = Return input
         \<and> r input = Return ret \<and> promise_resolve ret = Fulfilled output \<longrightarrow>
         snd (listener P (setError m code r) req) =
           (Respond \<lparr>response_status = code, response_contentType = ''application/json'',
                     response_body = JSON_stringify P output\<rparr> 0, Fulfilled ()))
   \<and> status (fst (listener P m req0)) = status m
   \<and> override (fst (listener P m req0)) = override m
   \<and> status (reset m) = Num 200 \<and> override (reset m) = None
   \<and> baseMock (reset m) = baseMock m \<and> url (reset m) = url m
   \<and> (\<forall>req input ret output.
         \<not> handled_at_start req \<and> \<not> handled_after_await req
         \<and> endsWith (request_url req) (url m)
         \<and> JSON_parse P (postData_or_default req) = Return input
         \<and> baseMock m input = Return ret \<and> promise_resolve ret = Fulfilled output \<longrightarrow>
         snd (listener P (reset m) req) =
           (Respond \<lparr>response_status = Num 200, response_contentType = ''application/json'',
                     response_body = JSON_stringify P output\<rparr> 0, Fulfilled ()))
   \<and> status (setResponse m r) = status m \<and> override (setResponse m r) = Some r
   \<and> baseMock (setResponse m r) = baseMock m \<and> url (setResponse m r) = url m"
proof -
  have e: "\<forall>req input ret output.
         \<not> handled_at_start req \<and> \<not> handled_after_await req
         \<and> endsWith (request_url req) (url m)
         \<and> JSON_parse P (postData_or_default req) = Return input
         \<and> r input = Return ret \<and> promise_resolve ret = Fulfilled output \<longrightarrow>
         snd (listener P (setError m code r) req) =
           (Respond \<lparr>response_status = code, response_contentType = ''application/json'',
                     response_body = JSON_stringify P output\<rparr> 0, Fulfilled ())"
    by (simp add: listener_def listener_start_def listener_resume_def setError_def)
  have b: "\<forall>req input ret output.
         \<not> handled_at_start req \<and> \<not> handled_after_await req
         \<and> endsWith (request_url req) (url m)
         \<and> JSON_parse P (postData_or_default req) = Return input
         \<and> baseMock m input = Return ret \<and> promise_resolve ret = Fulfilled output \<longrightarrow>
         snd (listener P (reset m) req) =
           (Respond \<lparr>response_status = Num 200, response_contentType = ''application/json'',
                     response_body = JSON_stringify P output\<rparr> 0, Fulfilled ())"
    by (simp add: listener_def listener_start_def listener_resume_def reset_def)
  have f: "status (setError m code r) = code \<and> override (setError m code r) = Some r
      \<and> baseMock (setError m code r) = baseMock m \<and> url (setError m code r) = url m"
    "status (reset m) = Num 200 \<and> override (reset m) = None
      \<and> baseMock (reset m) = baseMock m \<and> url (reset m) = url m"
    "status (setResponse m r) = status m \<and> override (setResponse m r) = Some r
      \<and> baseMock (setResponse m r) = baseMock m \<and> url (setResponse m r) = url m"
    by (simp_all add: setError_def reset_def setResponse_def)
  show ?thesis
    using e b f listener_fields(3,4) [of P m req0] by blast
qed

theorem mutators_effect_witness:
  "snd (listener example_platform (setError addUser_interceptor (Num 503) error_mock)
          addUser_request) =
     (Respond \<lparr>response_status = Num 503, response_contentType = ''application/json'',
               response_body = Some ''null''\<rparr> 0, Fulfilled ())
   \<and> snd (listener example_platform
            (reset (setError addUser_interceptor (Num 503) error_mock)) addUser_request) =
     (Respond \<lparr>response_status = Num 200, response_contentType = ''application/json'',
               response_body = Some ''{}''\<rparr> 0, Fulfilled ())"
proof -
  have a: "\<not> handled_at_start addUser_request" "\<not> handled_after_await addUser_request"
    "endsWith (request_url addUser_request) (url addUser_interceptor)"
    "postData_or_default addUser_request = ''{}''"
    by (simp_all add: addUser_request_def addUser_interceptor_def endsWith_def
        postData_or_default_def)
  have p: "JSON_parse example_platform ''{}'' = Return (JObj [])"
    "JSON_stringify example_platform (JObj []) = Some ''{}''"
    "JSON_stringify example_platform JNull = Some ''null''"
    by (simp_all add: example_platform_def)
  have r: "error_mock (JObj []) = Return (Plain JNull)"
    "baseMock addUser_interceptor (JObj []) = Return (Plain (JObj []))"
    by (simp_all add: error_mock_def addUser_interceptor_def addUser_mock_def)
  let ?e = "setError addUser_interceptor (Num 503) error_mock"
  have u: "url ?e = url addUser_interceptor" "baseMock ?e = baseMock addUser_interceptor"
    by (simp_all add: setError_def)
  have 1: "snd (listener example_platform ?e addUser_request) =
     (Respond \<lparr>response_status = Num 503, response_contentType = ''application/json'',
               response_body = JSON_stringify example_platform JNull\<rparr> 0, Fulfilled ())"
    using mutators_effect [of addUser_interceptor "Num 503" error_mock example_platform]
      a p(1) r(1) promise_resolve.simps(1) [of JNull]
    by metis
  have 2: "snd (listener example_platform (reset ?e) addUser_request) =
     (Respond \<lparr>response_status = Num 200, response_contentType = ''application/json'',
               response_body = JSON_stringify example_platform (JObj [])\<rparr> 0, Fulfilled ())"
    using mutators_effect [of ?e "Num 503" error_mock example_platform]
      a p(1) r(2) u promise_resolve.simps(1) [of "JObj []"]
    by metis
  show ?thesis using 1 2 p by simp
qed

section \<open>Activating interception\<close>

lemma mockAPI_reducer_page:
  "fst (mockAPI_reducer P api acc key) =
     (fst acc)\<lparr>request_handlers := request_handlers (fst acc) @ [name api @ ''/'' @ key]\<rparr>"
  by (cases acc) (simp add: mockAPI_reducer_def RequestMock_def)

lemma mockAPI_reducer_map:
  "map_of (snd (mockAPI_reducer P api acc key)) =
     (map_of (snd acc))(key \<mapsto>
        \<lparr>url = name api @ ''/'' @ key,
         baseMock = (case get_property P (mocks api) key of
                       Some f \<Rightarrow> call_function f
                     | None \<Rightarrow> (\<lambda>input. Return (Plain (JObj [])))),
         status = Num 200, override = None, calls = []\<rparr>)"
  by (cases acc) (simp add: mockAPI_reducer_def RequestMock_def update_conv')

lemma foldl_reducer_handlers:
  "request_handlers (fst (foldl (mockAPI_reducer P api) acc keys)) =
     request_handlers (fst acc) @ map (\<lambda>key. name api @ ''/'' @ key) keys"
  by (induction keys arbitrary: acc) (simp_all add: mockAPI_reducer_page)

lemma foldl_reducer_interception:
  "requestInterception (fst (foldl (mockAPI_reducer P api) acc keys)) =
     requestInterception (fst acc)"
  by (induction keys arbitrary: acc) (simp_all add: mockAPI_reducer_page)

lemma foldl_reducer_map:
  "map_of (snd (foldl (mockAPI_reducer P api) acc keys)) key =
     (if key \<in> set keys then
        Some \<lparr>url = name api @ ''/'' @ key,
              baseMock = (case get_property P (mocks api) key of
                       Some f \<Rightarrow> call_function f
                     | None \<Rightarrow> (\<lambda>input. Return (Plain (JObj [])))),
              status = Num 200, override = None, calls = []\<rparr>
      else map_of (snd acc) key)"
proof (induction keys arbitrary: acc)
  case Nil
  show ?case by simp
next
  case (Cons k keys)
  show ?case
    by (simp add: Cons.IH mockAPI_reducer_map)
qed

lemma mockAPI_result:
  "mockAPI P api pg =
     (api,
      fst (foldl (mockAPI_reducer P api) (pg\<lparr>requestInterception := True\<rparr>, [])
             (map fst (requests api))),
      snd (foldl (mockAPI_reducer P api) (pg\<lparr>requestInterception := True\<rparr>, [])
             (map fst (requests api))))"
  by (simp add: mockAPI_def split: prod.splits)

lemma mockAPI_handlers:
  "request_handlers (fst (snd (mockAPI P api pg))) =
     request_handlers pg @ map (\<lambda>key. name api @ ''/'' @ key) (map fst (requests api))"
  by (simp add: mockAPI_result foldl_reducer_handlers)

lemma mockAPI_interceptor:
  "key \<in> set (map fst (requests api)) \<Longrightarrow>
   map_of (snd (snd (mockAPI P api pg))) key =
     Some \<lparr>url = name api @ ''/'' @ key,
           baseMock = (case get_property P (mocks api) key of
                       Some f \<Rightarrow> call_function f
                     | None \<Rightarrow> (\<lambda>input. Return (Plain (JObj [])))),
           status = Num 200, override = None, calls = []\<rparr>"
  by (simp add: mockAPI_result foldl_reducer_map)

lemma requests_two_users:
  "requests two_users = [(''getUsers'', getUsers_live), (''addUser'', addUser_live)]"
  by (simp add: two_users_def APIService_def)

lemma mocks_two_users: "mocks two_users ''addUser'' = None"
  by (simp add: two_users_def APIService_def users_config_def)

text \<open>
  C3. Activating interception turns request interception on and adds one handler to the
  page for every request name of the registry, in order, after those the page had: each
  \<^verbatim>\<open>RequestMock\<close> registers its own listener when it is constructed, and the handlers
  added are the listeners of the interceptors returned for the request names. A registry
  of \<open>n\<close> request names adds \<open>n\<close> handlers.
\<close>

theorem one_handler_per_request:
  "request_handlers (fst (snd (mockAPI P api pg))) =
     request_handlers pg @ map (\<lambda>key. name api @ ''/'' @ key) (map fst (requests api))
   \<and> length (request_handlers (fst (snd (mockAPI P api pg)))) =
       length (request_handlers pg) + length (requests api)
   \<and> requestInterception (fst (snd (mockAPI P api pg)))
   \<and> map (\<lambda>key. map_option url (map_of (snd (snd (mockAPI P api pg))) key))
         (map fst (requests api)) =
       map (\<lambda>key. Some (name api @ ''/'' @ key)) (map fst (requests api))"
proof -
  note h = mockAPI_handlers [of P api pg]
  have i: "requestInterception (fst (snd (mockAPI P api pg)))"
    by (simp add: mockAPI_result foldl_reducer_interception)
  have u: "map_option url (map_of (snd (snd (mockAPI P api pg))) key) =
             Some (name api @ ''/'' @ key)"
    if "key \<in> set (map fst (requests api))" for key
    using that by (simp add: mockAPI_interceptor)
  have m: "map (\<lambda>key. map_option url (map_of (snd (snd (mockAPI P api pg))) key))
         (map fst (requests api)) =
       map (\<lambda>key. Some (name api @ ''/'' @ key)) (map fst (requests api))"
    by (rule map_cong [OF refl]) (rule u)
  show ?thesis
    using h i m by simp
qed

text \<open>The users service with two requests: two handlers on the page, not one.\<close>

theorem two_requests_two_handlers:
  "length (request_handlers (fst (snd (mockAPI example_platform two_users blank_page)))) = 2"
  by (simp add: mockAPI_handlers requests_two_users blank_page_def)

text \<open>
  C8, as the code has it. For a request name of the registry for which \<^verbatim>\<open>api.mocks[key]\<close>
  finds nothing when interception is activated, neither a substitute nor a property that
  every object inherits, the interceptor made for it has a default responder that returns
  the empty object for every input. So, whatever operations the interceptor has gone
  through, while no override is set: a matching call not yet resolved whose body parses
  is answered with status 200 and the JSON text of the empty object, \<^verbatim>\<open>{}\<close>, neither
  continued to the network nor failed by the responder; and a matching call whose body
  does not parse fails in the listener, which asks nothing of the request.
\<close>

theorem default_responder_empty_object:
  assumes "key \<in> set (map fst (requests api))"
    and "mocks api key = None"
    and "Object_prototype P key = None"
    and "JSON_stringify P (JObj []) = Some ''{}''"
  shows "\<exists>rm. map_of (snd (snd (mockAPI P api pg))) key = Some rm
           \<and> (\<forall>input. baseMock rm input = Return (Plain (JObj [])))
           \<and> (\<forall>ops req input.
                 override (foldl (perform P) rm ops) = None
                 \<and> \<not> handled_at_start req \<and> \<not> handled_after_await req
                 \<and> suffix (name api @ ''/'' @ key) (request_url req)
                 \<and> JSON_parse P (case postData req of
                                 None \<Rightarrow> ''{}''
                               | Some s \<Rightarrow> if s = [] then ''{}'' else s) = Return input \<longrightarrow>
                 snd (listener P (foldl (perform P) rm ops) req) =
                   (Respond \<lparr>response_status = Num 200,
                             response_contentType = ''application/json'',
                             response_body = Some ''{}''\<rparr> 0, Fulfilled ()))
           \<and> (\<forall>ops req e.
                 \<not> handled_at_start req
                 \<and> suffix (name api @ ''/'' @ key) (request_url req)
                 \<and> JSON_parse P (case postData req of
                                 None \<Rightarrow> ''{}''
                               | Some s \<Rightarrow> if s = [] then ''{}'' else s) = Throw e \<longrightarrow>
                 listener P (foldl (perform P) rm ops) req =
                   (foldl (perform P) rm ops, NoAction, Rejected e))"
proof -
  let ?rm = "\<lparr>url = name api @ ''/'' @ key,
              baseMock = (\<lambda>input. Return (Plain (JObj []))),
              status = Num 200, override = None, calls = []\<rparr>"
  have m: "map_of (snd (snd (mockAPI P api pg))) key = Some ?rm"
    using assms(1,2,3) by (simp add: mockAPI_interceptor get_property_nothing)
  have l: "snd (listener P (foldl (perform P) ?rm ops) req) =
             (Respond \<lparr>response_status = Num 200,
                       response_contentType = ''application/json'',
                       response_body = Some ''{}''\<rparr> 0, Fulfilled ())"
    if h: "override (foldl (perform P) ?rm ops) = None"
      "\<not> handled_at_start req" "\<not> handled_after_await req"
      "suffix (name api @ ''/'' @ key) (request_url req)"
      "JSON_parse P (case postData req of
                                 None \<Rightarrow> ''{}''
                               | Some s \<Rightarrow> if s = [] then ''{}'' else s) = Return input"
    for ops req input
  proof -
    let ?m = "foldl (perform P) ?rm ops"
    have u: "url ?m = name api @ ''/'' @ key"
      and b: "baseMock ?m = (\<lambda>input. Return (Plain (JObj [])))"
      using foldl_perform_fixed [of P ?rm ops] by simp_all
    have s: "status ?m = Num 200"
      using foldl_perform_default_status [of ?rm P ops] h(1) by simp
    have "listener P ?m req =
           (?m\<lparr>calls := calls ?m @ [(input, JObj [])]\<rparr>,
            Respond \<lparr>response_status = status ?m,
                     response_contentType = ''application/json'',
                     response_body = JSON_stringify P (JObj [])\<rparr> 0,
            Fulfilled ())"
      using h u b
      by (intro listener_responds [where r = "Plain (JObj [])"])
        (simp_all add: endsWith_suffix postData_or_default_cases)
    then show ?thesis
      using s assms(4) by simp
  qed
  have f: "listener P (foldl (perform P) ?rm ops) req =
             (foldl (perform P) ?rm ops, NoAction, Rejected e)"
    if h: "\<not> handled_at_start req"
      "suffix (name api @ ''/'' @ key) (request_url req)"
      "JSON_parse P (case postData req of
                                 None \<Rightarrow> ''{}''
                               | Some s \<Rightarrow> if s = [] then ''{}'' else s) = Throw e"
    for ops req e
    using h foldl_perform_fixed [of P ?rm ops]
    by (simp add: listener_def listener_start_def endsWith_suffix postData_or_default_cases)
  show ?thesis
    using m l f by (intro exI [of _ ?rm]) simp
qed

theorem default_responder_empty_object_witness:
  "\<exists>rm. map_of (snd (snd (mockAPI example_platform two_users blank_page))) ''addUser'' = Some rm
     \<and> baseMock rm (JObj [(''id'', JStr ''1'')]) = Return (Plain (JObj []))
     \<and> snd (listener example_platform rm addUser_request) =
         (Respond \<lparr>response_status = Num 200, response_contentType = ''application/json'',
                   response_body = Some ''{}''\<rparr> 0, Fulfilled ())
     \<and> listener example_platform rm addUser_request_not_JSON =
         (rm, NoAction, Rejected (Thrown (JStr ''SyntaxError'')))"
proof -
  have k: "''addUser'' \<in> set (map fst (requests two_users))"
    by (simp add: requests_two_users)
  have i: "Object_prototype example_platform ''addUser'' = None"
    by (simp add: example_platform_def example_prototype_def)
  have s: "JSON_stringify example_platform (JObj []) = Some ''{}''"
    and p: "JSON_parse example_platform
              (case postData addUser_request of
                 None \<Rightarrow> ''{}'' | Some s \<Rightarrow> if s = [] then ''{}'' else s) = Return (JObj [])"
    and q: "JSON_parse example_platform
              (case postData addUser_request_not_JSON of
                 None \<Rightarrow> ''{}'' | Some s \<Rightarrow> if s = [] then ''{}'' else s) =
              Throw (Thrown (JStr ''SyntaxError''))"
    by (simp_all add: example_platform_def addUser_request_def addUser_request_not_JSON_def)
  have a: "\<not> handled_at_start addUser_request" "\<not> handled_after_await addUser_request"
    "suffix (name two_users @ ''/'' @ ''addUser'') (request_url addUser_request)"
    "\<not> handled_at_start addUser_request_not_JSON"
    "suffix (name two_users @ ''/'' @ ''addUser'') (request_url addUser_request_not_JSON)"
    by (simp_all add: addUser_request_def addUser_request_not_JSON_def endsWith_def
        endsWith_suffix [symmetric] two_users_def APIService_def)
  obtain rm where rm: "map_of (snd (snd (mockAPI example_platform two_users blank_page)))
        ''addUser'' = Some rm"
    "\<forall>input. baseMock rm input = Return (Plain (JObj []))"
    "\<forall>ops req input.
        override (foldl (perform example_platform) rm ops) = None
        \<and> \<not> handled_at_start req \<and> \<not> handled_after_await req
        \<and> suffix (name two_users @ ''/'' @ ''addUser'') (request_url req)
        \<and> JSON_parse example_platform
             (case postData req of
                None \<Rightarrow> ''{}'' | Some s \<Rightarrow> if s = [] then ''{}'' else s) = Return input \<longrightarrow>
        snd (listener example_platform (foldl (perform example_platform) rm ops) req) =
          (Respond \<lparr>response_status = Num 200,
                    response_contentType = ''application/json'',
                    response_body = Some ''{}''\<rparr> 0, Fulfilled ())"
    "\<forall>ops req e.
        \<not> handled_at_start req
        \<and> suffix (name two_users @ ''/'' @ ''addUser'') (request_url req)
        \<and> JSON_parse example_platform
             (case postData req of
                None \<Rightarrow> ''{}'' | Some s \<Rightarrow> if s = [] then ''{}'' else s) = Throw e \<longrightarrow>
        listener example_platform (foldl (perform example_platform) rm ops) req =
          (foldl (perform example_platform) rm ops, NoAction, Rejected e)"
    using default_responder_empty_object [OF k mocks_two_users i s, of blank_page] by blast
  have o: "override rm = None"
    using rm(1) k mocks_two_users i
    by (auto simp add: mockAPI_interceptor)
  have 1: "snd (listener example_platform (foldl (perform example_platform) rm [])
                  addUser_request) =
          (Respond \<lparr>response_status = Num 200,
                    response_contentType = ''application/json'',
                    response_body = Some ''{}''\<rparr> 0, Fulfilled ())"
    using o a p by (intro rm(3) [rule_format, of "[]" addUser_request "JObj []"]) simp
  have 2: "listener example_platform (foldl (perform example_platform) rm [])
             addUser_request_not_JSON =
          (foldl (perform example_platform) rm [], NoAction,
           Rejected (Thrown (JStr ''SyntaxError'')))"
    using a q
    by (intro rm(4) [rule_format, of addUser_request_not_JSON
          "Thrown (JStr ''SyntaxError'')" "[]"]) simp
  show ?thesis
    using rm(1,2) 1 2 by auto
qed

text \<open>
  Two matching calls with no override set that are not answered with status 200 and
  \<^verbatim>\<open>{}\<close>. A service with no substitutes whose request is named \<^verbatim>\<open>toLocaleString\<close>: its
  interceptor's responder is the inherited function, which throws when it is called on its
  own, and the listener fails. And the \<^verbatim>\<open>addUser\<close> interceptor of the users service, whose
  responder is the default one, on a body that is not JSON: the listener fails.
\<close>

theorem matching_calls_that_fail:
  "mocks toLocaleString_users ''toLocaleString'' = None
   \<and> answer_of example_platform
        (snd (snd (mockAPI example_platform toLocaleString_users blank_page)))
        ''toLocaleString'' toLocaleString_request =
       Some (NoAction, Rejected TypeError)
   \<and> mocks two_users ''addUser'' = None
   \<and> answer_of example_platform
        (snd (snd (mockAPI example_platform two_users blank_page)))
        ''addUser'' addUser_request_not_JSON =
       Some (NoAction, Rejected (Thrown (JStr ''SyntaxError'')))"
proof -
  have k: "''toLocaleString'' \<in> set (map fst (requests toLocaleString_users))"
    "''addUser'' \<in> set (map fst (requests two_users))"
    by (simp_all add: toLocaleString_users_def requests_single requests_two_users)
  have n: "mocks toLocaleString_users ''toLocaleString'' = None"
    "name toLocaleString_users = ''users''" "name two_users = ''users''"
    by (simp_all add: toLocaleString_users_def two_users_def APIService_def)
  have g: "get_property example_platform (mocks toLocaleString_users) ''toLocaleString'' =
             Some (Inherited
               \<lparr>as_method = (\<lambda>obj input.
                                case obj ''toString'' of
                                  Some f \<Rightarrow> f JUndefined
                                | None \<Rightarrow> Return (Plain (JStr ''[object Object]''))),
                detached = (\<lambda>input. Throw TypeError)\<rparr>)"
    "get_property example_platform (mocks two_users) ''addUser'' = None"
    by (simp_all add: get_property_def n(1) mocks_two_users example_platform_def
        example_prototype_def)
  have p: "JSON_parse example_platform ''{}'' = Return (JObj [])"
    "JSON_parse example_platform ''id=1'' = Throw (Thrown (JStr ''SyntaxError''))"
    by (simp_all add: example_platform_def)
  have 1: "answer_of example_platform
        (snd (snd (mockAPI example_platform toLocaleString_users blank_page)))
        ''toLocaleString'' toLocaleString_request =
       Some (NoAction, Rejected TypeError)"
    by (simp add: answer_of_def mockAPI_interceptor [OF k(1)] g n p listener_def
        listener_start_def toLocaleString_request_def endsWith_def postData_or_default_def)
  have 2: "answer_of example_platform
        (snd (snd (mockAPI example_platform two_users blank_page)))
        ''addUser'' addUser_request_not_JSON =
       Some (NoAction, Rejected (Thrown (JStr ''SyntaxError'')))"
    by (simp add: answer_of_def mockAPI_interceptor [OF k(2)] g n p listener_def
        listener_start_def addUser_request_not_JSON_def addUser_request_def endsWith_def
        postData_or_default_def)
  show ?thesis
    using n(1) mocks_two_users 1 2 by simp
qed

section \<open>Who clears the substitutes\<close>

lemma mockAPI_service: "fst (mockAPI P api pg) = api"
  by (simp add: mockAPI_def split: prod.splits)

lemma setupInteractionBuilders_service:
  "fst (setupInteractionBuilders P service) = service\<lparr>mocks := Map.empty\<rparr>"
  by (simp add: setupInteractionBuilders_def Let_def)

lemma requests_mocked_users: "requests mocked_users = [(''getUsers'', getUsers_live)]"
  by (simp add: mocked_users_def APIService_def)

lemma mocks_mocked_users: "mocks mocked_users ''getUsers'' = Some getUsers_mock"
  by (simp add: mocked_users_def APIService_def users_config_def)

lemma config_mocked_users: "config mocked_users = Some users_config"
  by (simp add: mocked_users_def APIService_def)

lemma requests_meta_users: "requests meta_users = [(''getUser'', request getUser_meta)]"
  by (simp add: meta_users_def MetaAPIService_def APIService_def Let_def)

lemma request_getUser_meta: "request getUser_meta input = Return (Fulfilled JNull)"
  by (simp add: getUser_meta_def metaRequest_def Let_def)

text \<open>
  The empty mapping is a plain object: a request that bears an inherited name still finds
  that property in it, and its dispatch still sets the timer.
\<close>

lemma inherited_name_still_found:
  assumes "Object_prototype P key = Some h"
    and "\<not> tunnel_flag (config service)"
    and "map_of (requests service) key = Some call"
  shows "map_option timer_of
           (request_call P (fst (setupInteractionBuilders P service)) key input) =
         Some (Some (artificial_delay (config service)))"
  using assms
  by (simp add: setupInteractionBuilders_service request_call_def wrapped_request_def
      get_property_def)

text \<open>
  C2, as the code has it. \<^verbatim>\<open>mockAPI\<close> returns the service as it was, substitutes included:
  it only reads them, to give each interceptor its default responder. It is
  \<^verbatim>\<open>setupInteractionBuilders\<close> that sets the substitutes of its service to the empty
  mapping. After it, no dispatch of a request of that service sets the timer of the
  substitute path, and with the tunnel flag unset every registered request goes to its
  live operation, unless the request bears the name of a property that every object
  inherits, which the empty mapping still has.
\<close>

theorem substitutes_cleared_by_interaction_builders:
  "fst (mockAPI P api pg) = api
   \<and> mocks (fst (setupInteractionBuilders P service)) = Map.empty
   \<and> (\<forall>key input d.
         Object_prototype P key = None
         \<and> request_call P (fst (setupInteractionBuilders P service)) key input = Some d \<longrightarrow>
         timer_of d = None)
   \<and> (\<forall>key input call.
         \<not> tunnel_flag (config service) \<and> map_of (requests service) key = Some call
         \<and> Object_prototype P key = None \<longrightarrow>
         request_call P (fst (setupInteractionBuilders P service)) key input =
           Some (Settles [EvLiveCall key input]
                   (case call input of Throw e \<Rightarrow> Rejected e | Return p \<Rightarrow> p)))"
proof -
  have g: "get_property P (mocks (service\<lparr>mocks := Map.empty\<rparr>)) key = None"
    if "Object_prototype P key = None" for key
    using that by (simp add: get_property_def)
  have t: "timer_of d = None"
    if "Object_prototype P key = None"
      "request_call P (fst (setupInteractionBuilders P service)) key input = Some d"
    for key input d
    using that g [OF that(1)]
    by (auto simp add: setupInteractionBuilders_service request_call_def wrapped_request_def
        Let_def split: option.splits if_splits)
  have l: "request_call P (fst (setupInteractionBuilders P service)) key input =
           Some (Settles [EvLiveCall key input]
                   (case call input of Throw e \<Rightarrow> Rejected e | Return p \<Rightarrow> p))"
    if "\<not> tunnel_flag (config service)" "map_of (requests service) key = Some call"
      "Object_prototype P key = None"
    for key input call
    using that g [OF that(3)]
    by (simp add: setupInteractionBuilders_service request_call_def wrapped_request_def)
  have a: "fst (mockAPI P api pg) = api"
    by (rule mockAPI_service)
  have b: "mocks (fst (setupInteractionBuilders P service)) = Map.empty"
    by (simp add: setupInteractionBuilders_service)
  show ?thesis
    using a b t l by blast
qed

theorem substitutes_cleared_by_interaction_builders_witness:
  "mocks meta_users ''getUser'' \<noteq> None
   \<and> request_call example_platform (fst (setupInteractionBuilders example_platform meta_users))
        ''getUser'' (JObj [(''id'', JStr ''7'')]) =
       Some (Settles [EvLiveCall ''getUser'' (JObj [(''id'', JStr ''7'')])] (Fulfilled JNull))"
proof -
  have m: "mocks meta_users ''getUser'' \<noteq> None"
    and f: "\<not> tunnel_flag (config meta_users)"
    by (simp_all add: meta_users_def MetaAPIService_def APIService_def Let_def
        tunnel_flag_def)
  have r: "map_of (requests meta_users) ''getUser'' = Some (request getUser_meta)"
    by (simp add: requests_meta_users)
  have i: "Object_prototype example_platform ''getUser'' = None"
    by (simp add: example_platform_def example_prototype_def)
  have "request_call example_platform (fst (setupInteractionBuilders example_platform meta_users))
          ''getUser'' (JObj [(''id'', JStr ''7'')]) =
        Some (Settles [EvLiveCall ''getUser'' (JObj [(''id'', JStr ''7'')])]
                (case request getUser_meta (JObj [(''id'', JStr ''7'')]) of
                   Throw e \<Rightarrow> Rejected e | Return p \<Rightarrow> p))"
    using substitutes_cleared_by_interaction_builders
        [of example_platform meta_users blank_page meta_users]
      f r i by blast
  then show ?thesis
    using m by (simp add: request_getUser_meta)
qed

text \<open>
  After \<^verbatim>\<open>mockAPI\<close> the users service still has its substitute for \<^verbatim>\<open>getUsers\<close>, and a
  dispatch of \<^verbatim>\<open>getUsers\<close> still takes the substitute path, setting its timer.
\<close>

theorem mockAPI_keeps_substitutes:
  "mocks (fst (mockAPI example_platform mocked_users blank_page)) ''getUsers'' \<noteq> None
   \<and> map_option timer_of
        (request_call example_platform (fst (mockAPI example_platform mocked_users blank_page))
           ''getUsers'' JUndefined) = Some (Some (Num 200))"
  by (simp add: mockAPI_service mocks_mocked_users requests_mocked_users
      config_mocked_users request_call_def wrapped_request_def tunnel_flag_def
      users_config_def artificial_delay_def get_property_own)

section \<open>The path of a request with metadata\<close>

lemma replace_absent: "split_first pat res = None \<Longrightarrow> replace res pat replacement = res"
  by (simp add: replace_def)

lemma buildURL_object:
  "buildURL P u (JObj kvs) =
     foldl (\<lambda>res (key, v). replace res (''/:'' @ key @ ''/'') (''/'' @ ToString P v @ ''/''))
       u kvs"
  by (simp add: buildURL_def)

lemma path_getUser_meta: "path getUser_meta = buildURL example_platform ''/users/:id''"
  by (simp add: getUser_meta_def metaRequest_def Let_def)

lemma buildURL_inner_segment:
  "buildURL example_platform ''/users/:id/posts'' (JObj [(''id'', JStr ''7'')]) =
     ''/users/7/posts''"
  by (simp add: buildURL_object replace_def example_platform_def example_ToString_def)

text \<open>
  C7. The path function that \<^verbatim>\<open>metaRequest\<close> makes of the template \<^verbatim>\<open>/users/:id\<close>, the
  example of its own documentation, applied to the input \<^verbatim>\<open>{id: "7"}\<close>, returns the
  template unchanged: \<^verbatim>\<open>buildURL\<close> looks for \<^verbatim>\<open>/:id/\<close>, with a slash after the name, and
  the last segment of a path has none. The lemma before shows the same field substituted
  where a segment follows it.
\<close>

theorem last_segment_not_substituted:
  "path getUser_meta (JObj [(''id'', JStr ''7'')]) = ''/users/:id''"
  by (simp add: path_getUser_meta buildURL_object replace_def)

end
